theory Spec2Isabelle
  imports Complex_Main "HOL-Library.Log_Nat" "HOL-Library.AList"
begin

section \<open>Python values used by the emotion-detection pipeline\<close>

text \<open>
  Exceptions are values. Every constructor stands for a subclass of Python's
  \<open>Exception\<close>: the ones the interpreter raises in the modelled code, and
  \<open>LibraryError\<close> for whatever OpenCV, DeepFace or NumPy raise (\<open>cv2.error\<close>,
  \<open>ValueError\<close>, ...), carrying the message.
\<close>

datatype py_exception =
    ZeroDivisionError
  | IndexError
  | KeyError string
  | AttributeError string
  | TypeError string
  | ValueError string
  | LibraryError string

fun str_exception :: "py_exception \<Rightarrow> string" where
  "str_exception ZeroDivisionError = ''float division by zero''"
| "str_exception IndexError = ''list index out of range''"
| "str_exception (KeyError k) = k"
| "str_exception (AttributeError m) = m"
| "str_exception (TypeError m) = m"
| "str_exception (ValueError m) = m"
| "str_exception (LibraryError m) = m"

subsection \<open>Floats\<close>

text \<open>
  A Python float is an IEEE 754 binary64 number. A finite one is modelled by the
  rational it denotes; every float operation computes the exact rational result and
  rounds it to the nearest double, ties to even (\<open>to_double\<close>, with 53 significant
  bits and the subnormal exponent floor). Infinities and NaN are not modelled: the
  numbers here are clock readings, frame rates and confidences in the range 0 to 100.
\<close>

type_synonym pyfloat = rat

definition round_half_even :: "rat \<Rightarrow> int" where
  "round_half_even x =
     (let f = \<lfloor>x\<rfloor>; r = x - of_int f
      in if r < 1 / 2 then f else if 1 / 2 < r then f + 1 else if even f then f else f + 1)"

definition ilog2 :: "rat \<Rightarrow> int" where
  \<comment> \<open>the integer part of the binary logarithm of a positive rational\<close>
  "ilog2 a = (if 1 \<le> a then bitlen \<lfloor>a\<rfloor> - 1 else - bitlen (\<lceil>1 / a\<rceil> - 1))"

definition pow2 :: "int \<Rightarrow> rat" where
  "pow2 e = (if 0 \<le> e then 2 ^ nat e else 1 / 2 ^ nat (- e))"

definition to_double :: "rat \<Rightarrow> pyfloat" where
  "to_double q =
     (if q = 0 then 0
      else let a = \<bar>q\<bar>; e = max (ilog2 a - 52) (- 1074);
               m = round_half_even (a / pow2 e)
           in sgn q * of_int m * pow2 e)"

definition py_sub :: "pyfloat \<Rightarrow> pyfloat \<Rightarrow> pyfloat" where
  "py_sub a b = to_double (a - b)"

definition py_float :: "rat \<Rightarrow> pyfloat" where
  \<comment> \<open>\<open>float(x)\<close> on a number: a float is returned as it is, an integer is rounded\<close>
  "py_float x = to_double x"

definition float_div :: "pyfloat \<Rightarrow> pyfloat \<Rightarrow> pyfloat" where
  \<comment> \<open>the quotient of two floats, the divisor not zero\<close>
  "float_div a b = to_double (a / b)"

definition py_truediv :: "rat \<Rightarrow> rat \<Rightarrow> py_exception + pyfloat" where
  \<comment> \<open>\<open>a / b\<close> with a float operand: the other operand is converted to float first\<close>
  "py_truediv a b =
     (if py_float b = 0 then Inl ZeroDivisionError
      else Inr (float_div (py_float a) (py_float b)))"

definition py_round :: "pyfloat \<Rightarrow> nat \<Rightarrow> pyfloat" where
  \<comment> \<open>\<open>round(x, ndigits)\<close> on a float: the exact value of \<open>x\<close> is rounded to
      \<open>ndigits\<close> decimals, ties to even, and the decimal is converted back to a float\<close>
  "py_round x ndigits =
     to_double (of_int (round_half_even (x * 10 ^ ndigits)) / 10 ^ ndigits)"

section \<open>camera\_input.py: the rate-limited frame source\<close>

text \<open>
  \<open>video_capture\<close> is \<open>None\<close> until the camera is initialised. An opened device is
  modelled by the number of reads it has served; what the device answers to its
  \<open>n\<close>-th read is a parameter \<open>dev n\<close> of the model, a pair of the success flag and
  the frame (\<open>None\<close> when there is none). A read advances the counter, so the device
  was not touched exactly when the counter did not move.
\<close>

record 'f CameraInput =
  video_capture :: "nat option"
  input_config :: "(string \<times> rat) list"
  target_fps :: rat
  last_frame :: "'f option"
  last_frame_valid :: bool
  last_frame_time :: pyfloat
  frame_interval :: pyfloat

text \<open>Configuration values are Python numbers; \<open>True\<close> is the number 1.\<close>

definition DEFAULT_CAMERA_CONFIG :: "(string \<times> rat) list" where
  "DEFAULT_CAMERA_CONFIG =
     [(''camera_fps'', 30), (''camera_fps_adaptive'', 1), (''camera_fps_min'', 15),
      (''camera_fps_max'', 60), (''camera_index'', 0), (''camera_flip_horizontal'', 1)]"

definition dict_merge :: "('k \<times> 'v) list \<Rightarrow> ('k \<times> 'v) list \<Rightarrow> ('k \<times> 'v) list" where
  \<comment> \<open>\<open>{**a, **b}\<close> on insertion-ordered dictionaries\<close>
  "dict_merge a b = fold (\<lambda>(k, v). AList.update k v) b a"

definition CameraInput_init ::
  "(string \<times> rat) list option \<Rightarrow> py_exception + 'f CameraInput" where
  "CameraInput_init cfg =
     (let merged = dict_merge DEFAULT_CAMERA_CONFIG (case cfg of None \<Rightarrow> [] | Some m \<Rightarrow> m);
          fps = (case map_of merged ''camera_fps'' of None \<Rightarrow> 30 | Some v \<Rightarrow> v)
      in case py_truediv 1 fps of
           Inl e \<Rightarrow> Inl e
         | Inr interval \<Rightarrow>
             Inr \<lparr>video_capture = None, input_config = merged, target_fps = fps,
                  last_frame = None, last_frame_valid = False, last_frame_time = 0,
                  frame_interval = interval\<rparr>)"

definition video_capture_read ::
  "(nat \<Rightarrow> bool \<times> 'f option) \<Rightarrow> 'f CameraInput \<Rightarrow>
     py_exception + ('f CameraInput \<times> bool \<times> 'f option)" where
  "video_capture_read dev c =
     (case video_capture c of
        None \<Rightarrow> Inl (AttributeError ''NoneType object has no attribute read'')
      | Some n \<Rightarrow> Inr (c\<lparr>video_capture := Some (Suc n)\<rparr>, dev n))"

definition read_with_frame_rate_limiting ::
  "(nat \<Rightarrow> bool \<times> 'f option) \<Rightarrow> 'f CameraInput \<Rightarrow> pyfloat \<Rightarrow>
     py_exception + ('f CameraInput \<times> bool \<times> 'f option)" where
  "read_with_frame_rate_limiting dev c current_time =
     (if frame_interval c \<le> py_sub current_time (last_frame_time c) then
        (case video_capture_read dev c of
           Inl e \<Rightarrow> Inl e
         | Inr (c1, ret, frame) \<Rightarrow>
             if ret then
               Inr (c1\<lparr>last_frame := frame, last_frame_valid := True,
                        last_frame_time := current_time\<rparr>, ret, frame)
             else if last_frame_valid c1 then Inr (c1, True, last_frame c1)
             else Inr (c1, False, None))
      else if last_frame_valid c then Inr (c, True, last_frame c)
      else
        (case video_capture_read dev c of
           Inl e \<Rightarrow> Inl e
         | Inr (c1, ret, frame) \<Rightarrow>
             if ret then
               Inr (c1\<lparr>last_frame := frame, last_frame_valid := True,
                        last_frame_time := current_time\<rparr>, ret, frame)
             else Inr (c1, ret, frame)))"

definition read ::
  "(nat \<Rightarrow> bool \<times> 'f option) \<Rightarrow> 'f CameraInput \<Rightarrow> pyfloat \<Rightarrow>
     py_exception + ('f CameraInput \<times> bool \<times> 'f option)" where
  "read dev c current_time = read_with_frame_rate_limiting dev c current_time"

definition read_flipped ::
  "('f \<Rightarrow> 'f) \<Rightarrow> (nat \<Rightarrow> bool \<times> 'f option) \<Rightarrow> 'f CameraInput \<Rightarrow> pyfloat \<Rightarrow>
     py_exception + ('f CameraInput \<times> bool \<times> 'f option)" where
  \<comment> \<open>\<open>flip\<close> is \<open>cv2.flip(frame, 1)\<close>; the cached frame stays unflipped\<close>
  "read_flipped flip dev c current_time =
     (case read_with_frame_rate_limiting dev c current_time of
        Inl e \<Rightarrow> Inl e
      | Inr (c1, ret, frame) \<Rightarrow>
          (case frame of
             Some f \<Rightarrow> if ret then Inr (c1, ret, Some (flip f)) else Inr (c1, ret, frame)
           | None \<Rightarrow> Inr (c1, ret, frame)))"

text \<open>
  A caller issuing \<open>read()\<close> at the given clock readings, one after the other; the
  answers are collected in call order.
\<close>

fun reads ::
  "(nat \<Rightarrow> bool \<times> 'f option) \<Rightarrow> 'f CameraInput \<Rightarrow> pyfloat list \<Rightarrow>
     py_exception + ('f CameraInput \<times> (bool \<times> 'f option) list)" where
  "reads dev c [] = Inr (c, [])"
| "reads dev c (t # ts) =
     (case read dev c t of
        Inl e \<Rightarrow> Inl e
      | Inr (c1, r) \<Rightarrow>
          (case reads dev c1 ts of
             Inl e \<Rightarrow> Inl e
           | Inr (c2, rs) \<Rightarrow> Inr (c2, r # rs)))"

text \<open>
  The camera of \<open>app.py\<close>: \<open>CameraInput(DEFAULT_CAMERA_CONFIG)\<close> after its first
  \<open>_initialize_camera()\<close>, which opens the device; and a device that never fails and
  whose \<open>n\<close>-th frame is the number \<open>n\<close>.
\<close>

definition steady_device :: "nat \<Rightarrow> bool \<times> nat option" where
  "steady_device n = (True, Some n)"

definition default_camera :: "nat CameraInput" where
  "default_camera =
     \<lparr>video_capture = Some 0, input_config = DEFAULT_CAMERA_CONFIG, target_fps = 30,
      last_frame = None, last_frame_valid = False, last_frame_time = 0,
      frame_interval = to_double (1 / 30)\<rparr>"

definition answers ::
  "(nat \<Rightarrow> bool \<times> 'f option) \<Rightarrow> 'f CameraInput \<Rightarrow> pyfloat list \<Rightarrow>
     py_exception + (bool \<times> 'f option) list" where
  "answers dev c ts = (case reads dev c ts of Inl e \<Rightarrow> Inl e | Inr (c1, rs) \<Rightarrow> Inr rs)"

text \<open>The default camera after one accepted read at clock reading 1000.\<close>

definition warm_camera :: "nat CameraInput" where
  "warm_camera =
     default_camera\<lparr>video_capture := Some 1, last_frame := Some 0, last_frame_valid := True,
       last_frame_time := 1000\<rparr>"

section \<open>emotion\_detector.py: the face and emotion classifier\<close>

text \<open>
  The values a result dictionary holds, and what a method documented as returning
  "a dict or None" can hand back. A dictionary is an association list in insertion
  order; emotion scores map a category name to a confidence.
\<close>

type_synonym scores = "(string \<times> pyfloat) list"

datatype pyval =
    PNone
  | PBool bool
  | PStr string
  | PTuple "int list"
  | PScores scores

datatype pyobj = ONone | ODict "(string \<times> pyval) list"

fun truthy :: "pyval \<Rightarrow> bool" where
  "truthy PNone = False"
| "truthy (PBool b) = b"
| "truthy (PStr s) = (s \<noteq> [])"
| "truthy (PTuple xs) = (xs \<noteq> [])"
| "truthy (PScores es) = (es \<noteq> [])"

fun truthy_obj :: "pyobj \<Rightarrow> bool" where
  "truthy_obj ONone = False"
| "truthy_obj (ODict d) = (d \<noteq> [])"

definition getitem :: "(string \<times> pyval) list \<Rightarrow> string \<Rightarrow> py_exception + pyval" where
  "getitem d k = (case map_of d k of None \<Rightarrow> Inl (KeyError k) | Some v \<Rightarrow> Inr v)"

text \<open>
  One element of the list \<open>DeepFace.analyze\<close> returns for \<open>actions=['emotion']\<close>: the
  entries under the keys \<open>emotion\<close> and \<open>dominant_emotion\<close>.
\<close>

record analysis =
  analysis_emotion :: scores
  analysis_dominant_emotion :: string

text \<open>
  The library calls of \<open>detect_emotions_from_frame\<close> are parameters of the model, each
  free to return or to raise: the two colour conversions of \<open>cv2.cvtColor\<close>, the
  cascade's \<open>detectMultiScale\<close> (a list of boxes \<open>(x, y, w, h)\<close>), the NumPy slice
  \<open>rgb_frame[y:y + h, x:x + w]\<close>, \<open>DeepFace.analyze\<close>, and \<open>emotions_to_color\<close>, whose
  arithmetic is NumPy's and depends on the scalar types DeepFace hands over. All
  images share the type \<open>'f\<close>.
\<close>

record 'f vision =
  cvtColor_BGR2GRAY :: "'f \<Rightarrow> py_exception + 'f"
  cvtColor_GRAY2RGB :: "'f \<Rightarrow> py_exception + 'f"
  detectMultiScale :: "'f \<Rightarrow> py_exception + (int \<times> int \<times> int \<times> int) list"
  face_roi :: "'f \<Rightarrow> int \<times> int \<times> int \<times> int \<Rightarrow> py_exception + 'f"
  analyze :: "'f \<Rightarrow> bool \<Rightarrow> py_exception + analysis list"
  emotions_to_color :: "scores \<Rightarrow> py_exception + int \<times> int \<times> int"

definition no_face_result :: "(string \<times> pyval) list" where
  "no_face_result =
     [(''emotions'', PScores []), (''dominant_emotion'', PNone),
      (''emotion_color_rgb'', PTuple [0, 0, 0]), (''emotion_color_bgr'', PTuple [0, 0, 0]),
      (''face_detected'', PBool False), (''face_bbox'', PNone)]"

definition error_result :: "py_exception \<Rightarrow> (string \<times> pyval) list" where
  "error_result e =
     [(''emotions'', PScores []), (''dominant_emotion'', PNone),
      (''emotion_color_rgb'', PTuple [0, 0, 0]), (''emotion_color_bgr'', PTuple [0, 0, 0]),
      (''face_detected'', PBool False), (''face_bbox'', PNone),
      (''error'', PStr (str_exception e))]"

text \<open>The body of the \<open>try\<close> block: \<open>Inl\<close> is an exception leaving it.\<close>

definition detect_try_body :: "'f vision \<Rightarrow> 'f \<Rightarrow> bool \<Rightarrow> py_exception + pyobj" where
  "detect_try_body cv frame silent =
     (case cvtColor_BGR2GRAY cv frame of
        Inl e \<Rightarrow> Inl e
      | Inr gray_frame \<Rightarrow>
     (case cvtColor_GRAY2RGB cv gray_frame of
        Inl e \<Rightarrow> Inl e
      | Inr rgb_frame \<Rightarrow>
     (case detectMultiScale cv gray_frame of
        Inl e \<Rightarrow> Inl e
      | Inr faces \<Rightarrow>
     (case faces of
        [] \<Rightarrow> Inr (ODict no_face_result)
      | (x, y, w, h) # _ \<Rightarrow>
     (case face_roi cv rgb_frame (x, y, w, h) of
        Inl e \<Rightarrow> Inl e
      | Inr roi \<Rightarrow>
     (case analyze cv roi silent of
        Inl e \<Rightarrow> Inl e
      | Inr result \<Rightarrow>
     (case result of
        [] \<Rightarrow> Inl IndexError
      | r0 # _ \<Rightarrow>
     (case emotions_to_color cv (analysis_emotion r0) of
        Inl e \<Rightarrow> Inl e
      | Inr (r, g, b) \<Rightarrow>
          Inr (ODict
            [(''emotions'', PScores (analysis_emotion r0)),
             (''dominant_emotion'', PStr (analysis_dominant_emotion r0)),
             (''emotion_color_rgb'', PTuple [r, g, b]),
             (''emotion_color_bgr'', PTuple [b, g, r]),
             (''face_detected'', PBool True),
             (''face_bbox'', PTuple [x, y, w, h])])))))))))"

definition detect_emotions_from_frame ::
  "'f vision \<Rightarrow> 'f \<Rightarrow> bool \<Rightarrow> py_exception + pyobj" where
  "detect_emotions_from_frame cv frame silent =
     (case detect_try_body cv frame silent of
        Inl e \<Rightarrow> Inr (ODict (error_result e))
      | Inr r \<Rightarrow> Inr r)"

text \<open>
  A stub of the libraries for trying the detector: frame 0 shows no face, every other
  frame shows one happy face.
\<close>

definition stub_vision :: "nat vision" where
  "stub_vision =
     \<lparr>cvtColor_BGR2GRAY = (\<lambda>f. Inr f),
      cvtColor_GRAY2RGB = (\<lambda>f. Inr f),
      detectMultiScale = (\<lambda>f. Inr (if f = 0 then [] else [(10, 20, 64, 64)])),
      face_roi = (\<lambda>f box. Inr f),
      analyze = (\<lambda>f silent.
        Inr [\<lparr>analysis_emotion = [(''happy'', 90), (''sad'', 10)],
              analysis_dominant_emotion = ''happy''\<rparr>]),
      emotions_to_color = (\<lambda>es. Inr (229, 229, 25))\<rparr>"



section \<open>format\_prompt.py\<close>

text \<open>
  \<open>max(iterable, key=...)\<close> walks the items in iteration order and replaces its
  candidate only by an item whose key is strictly greater.
\<close>

fun max_by_value :: "string \<times> pyfloat \<Rightarrow> scores \<Rightarrow> string \<times> pyfloat" where
  "max_by_value best [] = best"
| "max_by_value best (x # xs) = max_by_value (if snd best < snd x then x else best) xs"

definition dominant_emotion :: "scores \<Rightarrow> py_exception + string" where
  \<comment> \<open>\<open>max(emotions_dict.items(), key=lambda x: x[1])[0]\<close>\<close>
  "dominant_emotion emotions_dict =
     (case emotions_dict of
        [] \<Rightarrow> Inl (ValueError ''max() arg is an empty sequence'')
      | first # rest \<Rightarrow> Inr (fst (max_by_value first rest)))"

definition upper_char :: "char \<Rightarrow> char" where
  "upper_char c =
     (let n = of_char c :: nat in if 97 \<le> n \<and> n \<le> 122 then char_of (n - 32) else c)"

definition lower_char :: "char \<Rightarrow> char" where
  "lower_char c =
     (let n = of_char c :: nat in if 65 \<le> n \<and> n \<le> 90 then char_of (n + 32) else c)"

fun capitalize :: "string \<Rightarrow> string" where
  \<comment> \<open>\<open>str.capitalize\<close> on ASCII text\<close>
  "capitalize [] = []"
| "capitalize (c # cs) = upper_char c # map lower_char cs"

definition format_dominant_emotion :: "scores \<Rightarrow> py_exception + string" where
  "format_dominant_emotion emotions_dict =
     (if emotions_dict = [] then Inr []
      else
        (case dominant_emotion emotions_dict of
           Inl e \<Rightarrow> Inl e
         | Inr emotion_name \<Rightarrow> Inr (''I am feeling '' @ capitalize emotion_name)))"

section \<open>app.py: the shared emotion state and the detection loop\<close>

record emotion_data =
  emotions :: scores
  scores_out_of_10 :: scores
  timestamp :: "pyfloat option"

record history_entry =
  entry_emotions :: scores
  entry_timestamp :: pyfloat

record app =
  data :: emotion_data
  emotion_history :: "history_entry list"

definition initial_app :: app where
  "initial_app =
     \<lparr>data = \<lparr>emotions = [], scores_out_of_10 = [], timestamp = None\<rparr>,
      emotion_history = []\<rparr>"

definition deque_append :: "nat \<Rightarrow> 'a list \<Rightarrow> 'a \<Rightarrow> 'a list" where
  \<comment> \<open>\<open>deque(maxlen=n).append(x)\<close>: append on the right, then drop the leftmost
      element if the bound is exceeded\<close>
  "deque_append maxlen d x = (let d1 = d @ [x] in if maxlen < length d1 then tl d1 else d1)"

definition convert_numpy_types :: "scores \<Rightarrow> scores" where
  \<comment> \<open>Modelled from the spec: \<open>emotion_detection/utils.py\<close> is not among the sources.
      Section 6 of the spec has every numeric value of a snapshot be a native float or
      int instead of a library-specific wrapper; the numbers themselves stay what they
      are.\<close>
  "convert_numpy_types d = d"

definition convert_to_out_of_10 :: "scores \<Rightarrow> scores" where
  "convert_to_out_of_10 emotions_dict =
     map (\<lambda>(emotion, score). (emotion, py_round (float_div (py_float score) 10) 1))
       (convert_numpy_types emotions_dict)"

text \<open>
  The four statements of the loop body that run after a successful detection, in
  program order; \<open>t1\<close> and \<open>t2\<close> are the two readings of \<open>time.time()\<close>.
\<close>

fun publish_statement :: "nat \<Rightarrow> scores \<Rightarrow> pyfloat \<Rightarrow> pyfloat \<Rightarrow> app \<Rightarrow> app" where
  "publish_statement 0 es t1 t2 s =
     s\<lparr>emotion_history :=
         deque_append 10 (emotion_history s) \<lparr>entry_emotions = es, entry_timestamp = t1\<rparr>\<rparr>"
| "publish_statement (Suc 0) es t1 t2 s = s\<lparr>data := (data s)\<lparr>emotions := es\<rparr>\<rparr>"
| "publish_statement (Suc (Suc 0)) es t1 t2 s =
     s\<lparr>data := (data s)\<lparr>scores_out_of_10 := convert_to_out_of_10 es\<rparr>\<rparr>"
| "publish_statement (Suc (Suc (Suc 0))) es t1 t2 s =
     s\<lparr>data := (data s)\<lparr>timestamp := Some t2\<rparr>\<rparr>"
| "publish_statement (Suc (Suc (Suc (Suc n)))) es t1 t2 s = s"

definition publish_statements :: "scores \<Rightarrow> pyfloat \<Rightarrow> pyfloat \<Rightarrow> app \<Rightarrow> app" where
  "publish_statements es t1 t2 s =
     publish_statement 3 es t1 t2
       (publish_statement 2 es t1 t2
         (publish_statement 1 es t1 t2
           (publish_statement 0 es t1 t2 s)))"

text \<open>
  Lines 102 to 117 of the loop: the test \<open>result and result['face_detected']\<close> and,
  when it holds, the update of history and state. An exception here is not caught
  and ends the loop thread; a value under \<open>emotions\<close> that is no dictionary raises
  when \<open>convert_to_out_of_10\<close> asks for its items.
\<close>

definition publish :: "app \<Rightarrow> pyobj \<Rightarrow> pyfloat \<Rightarrow> pyfloat \<Rightarrow> py_exception + app" where
  "publish s result t1 t2 =
     (case result of
        ONone \<Rightarrow> Inr s
      | ODict d \<Rightarrow>
          if \<not> truthy_obj result then Inr s
          else
            (case getitem d ''face_detected'' of
               Inl e \<Rightarrow> Inl e
             | Inr detected \<Rightarrow>
                 if \<not> truthy detected then Inr s
                 else
                   (case getitem d ''emotions'' of
                      Inl e \<Rightarrow> Inl e
                    | Inr (PScores es) \<Rightarrow>
                        Inr (publish_statements (convert_numpy_types es) t1 t2 s)
                    | Inr _ \<Rightarrow> Inl (AttributeError ''items''))))"

definition get_latest_emotions :: "app \<Rightarrow> emotion_data" where
  "get_latest_emotions s =
     (let d = data s
      in d\<lparr>emotions := convert_numpy_types (emotions d),
           scores_out_of_10 := convert_numpy_types (scores_out_of_10 d)\<rparr>)"

text \<open>One publish after the other, each with its result and its two clock readings.\<close>

fun publish_all :: "app \<Rightarrow> (pyobj \<times> pyfloat \<times> pyfloat) list \<Rightarrow> py_exception + app" where
  "publish_all s [] = Inr s"
| "publish_all s ((result, t1, t2) # rest) =
     (case publish s result t1 t2 of
        Inl e \<Rightarrow> Inl e
      | Inr s1 \<Rightarrow> publish_all s1 rest)"

text \<open>
  A result that reports a face, and the history entry its publish appends.
\<close>

fun face_detected :: "pyobj \<Rightarrow> bool" where
  "face_detected ONone = False"
| "face_detected (ODict d) =
     (map_of d ''face_detected'' = Some (PBool True) \<and>
      (case map_of d ''emotions'' of Some (PScores es) \<Rightarrow> True | _ \<Rightarrow> False))"

fun result_emotions :: "pyobj \<Rightarrow> scores" where
  "result_emotions ONone = []"
| "result_emotions (ODict d) =
     (case map_of d ''emotions'' of Some (PScores es) \<Rightarrow> es | _ \<Rightarrow> [])"

definition entry_of :: "pyobj \<times> pyfloat \<times> pyfloat \<Rightarrow> history_entry" where
  "entry_of p =
     \<lparr>entry_emotions = result_emotions (fst p), entry_timestamp = fst (snd p)\<rparr>"

definition face_result :: "scores \<Rightarrow> pyobj" where
  "face_result es =
     ODict [(''emotions'', PScores es),
            (''dominant_emotion'',
               (case dominant_emotion es of Inl e \<Rightarrow> PNone | Inr name \<Rightarrow> PStr name)),
            (''emotion_color_rgb'', PTuple [0, 0, 0]), (''emotion_color_bgr'', PTuple [0, 0, 0]),
            (''face_detected'', PBool True), (''face_bbox'', PTuple [10, 20, 64, 64])]"

definition fifteen_publishes :: "(pyobj \<times> pyfloat \<times> pyfloat) list" where
  "fifteen_publishes =
     map (\<lambda>i. (face_result [(''happy'', of_nat i)], 1000 + of_nat i, 1000 + of_nat i))
       [0 ..< 15]"

text \<open>The state after one happy face was published at clock reading 1000.\<close>

definition happy_app :: app where
  "happy_app =
     \<lparr>data = \<lparr>emotions = [(''happy'', 90)], scores_out_of_10 = [(''happy'', 9)],
              timestamp = Some 1000\<rparr>,
      emotion_history = [\<lparr>entry_emotions = [(''happy'', 90)], entry_timestamp = 1000\<rparr>]\<rparr>"

text \<open>
  One pass through the body of \<open>continuous_emotion_detection\<close>: \<open>now\<close> is the clock
  reading inside the camera read; the sleeps only let time pass.
\<close>

definition loop_iteration ::
  "('f \<Rightarrow> 'f) \<Rightarrow> (nat \<Rightarrow> bool \<times> 'f option) \<Rightarrow> 'f vision \<Rightarrow> 'f CameraInput \<times> app \<Rightarrow>
     pyfloat \<Rightarrow> pyfloat \<Rightarrow> pyfloat \<Rightarrow> py_exception + 'f CameraInput \<times> app" where
  "loop_iteration flip dev cv cs now t1 t2 =
     (case read_flipped flip dev (fst cs) now of
        Inl e \<Rightarrow> Inl e
      | Inr (c1, ret, frame) \<Rightarrow>
          (case frame of
             None \<Rightarrow> Inr (c1, snd cs)
           | Some f \<Rightarrow>
               if \<not> ret then Inr (c1, snd cs)
               else
                 (case detect_emotions_from_frame cv f True of
                    Inl e \<Rightarrow> Inl e
                  | Inr result \<Rightarrow>
                      (case publish (snd cs) result t1 t2 of
                         Inl e \<Rightarrow> Inl e
                       | Inr s1 \<Rightarrow> Inr (c1, s1)))))"

subsection \<open>A reader running beside the loop\<close>

text \<open>
  The loop thread and the request threads share \<open>emotion_data\<close> without a lock. The
  interpreter switches threads between statements, so one publish is four steps of
  the writer (\<open>publish_statement 0\<close> to \<open>3\<close>), and a reader's \<open>emotion_data.copy()\<close>
  in \<open>get_latest_emotions\<close> is one step that can fall between any two of them. A
  schedule lists whose turn it is; \<open>interleave\<close> returns the snapshots the readers
  got, in order. \<open>pc\<close> counts the statements of the publish already executed.
\<close>

datatype turn = Writer | Reader

fun interleave ::
  "scores \<Rightarrow> pyfloat \<Rightarrow> pyfloat \<Rightarrow> turn list \<Rightarrow> nat \<Rightarrow> app \<Rightarrow> emotion_data list" where
  "interleave es t1 t2 [] pc s = []"
| "interleave es t1 t2 (Writer # sched) pc s =
     interleave es t1 t2 sched (Suc pc) (publish_statement pc es t1 t2 s)"
| "interleave es t1 t2 (Reader # sched) pc s =
     get_latest_emotions s # interleave es t1 t2 sched pc s"

text \<open>
  A record that no publish ever wrote: the emotions of a second publish with the
  scores and the timestamp of the first.
\<close>

definition torn_record :: emotion_data where
  "torn_record =
     \<lparr>emotions = [(''sad'', 80)], scores_out_of_10 = [(''happy'', 9)],
      timestamp = Some 1000\<rparr>"

subsection \<open>Starting and stopping the loop\<close>

text \<open>
  \<open>threads\<close> lists every loop thread started so far; one is \<open>Alive\<close> until it
  evaluates its \<open>while emotion_detection_running\<close> test with the flag cleared.
  \<open>emotion_detection_thread\<close> is the index of the thread created last.
\<close>

datatype thread_status = Alive | Exited

record control =
  emotion_detection_running :: bool
  emotion_detection_thread :: "nat option"
  threads :: "thread_status list"

definition initial_control :: control where
  "initial_control =
     \<lparr>emotion_detection_running = False, emotion_detection_thread = None, threads = []\<rparr>"

definition start_continuous_emotion_detection :: "control \<Rightarrow> control \<times> bool" where
  "start_continuous_emotion_detection s =
     (if \<not> emotion_detection_running s then
        (s\<lparr>emotion_detection_running := True,
           emotion_detection_thread := Some (length (threads s)),
           threads := threads s @ [Alive]\<rparr>, True)
      else (s, False))"

definition stop_continuous_emotion_detection :: "control \<Rightarrow> control" where
  "stop_continuous_emotion_detection s = s\<lparr>emotion_detection_running := False\<rparr>"

definition loop_test :: "nat \<Rightarrow> control \<Rightarrow> control" where
  \<comment> \<open>thread \<open>i\<close> reaches the head of its \<open>while\<close> loop\<close>
  "loop_test i s =
     (if i < length (threads s) \<and> threads s ! i = Alive \<and> \<not> emotion_detection_running s
      then s\<lparr>threads := (threads s)[i := Exited]\<rparr>
      else s)"

datatype event = Start | Stop | LoopTest nat

fun step :: "event \<Rightarrow> control \<Rightarrow> control" where
  "step Start s = fst (start_continuous_emotion_detection s)"
| "step Stop s = stop_continuous_emotion_detection s"
| "step (LoopTest i) s = loop_test i s"

definition run_events :: "event list \<Rightarrow> control \<Rightarrow> control" where
  "run_events evs s = fold step evs s"





section \<open>Verified properties\<close>

subsection \<open>The rate-limited frame source\<close>

lemma cached_read:
  "py_sub t (last_frame_time c) < frame_interval c \<Longrightarrow> last_frame_valid c \<Longrightarrow>
     read dev c t = Inr (c, True, last_frame c)"
  by (simp add: read_def read_with_frame_rate_limiting_def)

lemma uncached_read:
  "py_sub t (last_frame_time c) < frame_interval c \<Longrightarrow> \<not> last_frame_valid c \<Longrightarrow>
   video_capture c = Some n \<Longrightarrow>
     \<exists>c'. read dev c t = Inr (c', dev n) \<and> video_capture c' = Some (Suc n)"
  by (cases "dev n") (simp add: read_def read_with_frame_rate_limiting_def video_capture_read_def)

lemma fresh_read:
  assumes "video_capture c = Some n" "fst (dev n)"
    and "read dev c t1 = Inr (c1, r1)" "video_capture c1 \<noteq> video_capture c"
  shows "r1 = dev n \<and> last_frame c1 = snd (dev n) \<and> last_frame_valid c1 \<and>
     last_frame_time c1 = t1 \<and> frame_interval c1 = frame_interval c \<and>
     video_capture c1 = Some (Suc n)"
  using assms
  by (cases "dev n")
     (auto simp: read_def read_with_frame_rate_limiting_def video_capture_read_def
           split: if_splits)

lemma first_read_at_1000:
  "read steady_device default_camera 1000 = Inr (warm_camera, True, Some 0)"
  unfolding warm_camera_def by code_simp

lemma second_read_is_early:
  "py_sub (1000 + 1 / 32) 1000 < frame_interval default_camera"
  by code_simp

lemma third_read_is_close:
  "py_sub (1000 + 3 / 64) (1000 + 1 / 32) < frame_interval default_camera"
  by code_simp

lemma read_at_clock_zero:
  "py_sub 0 (last_frame_time default_camera) < frame_interval default_camera"
  by code_simp

lemma three_answers:
  "answers steady_device default_camera [1000, 1000 + 1 / 32, 1000 + 3 / 64] =
     Inr [(True, Some 0), (True, Some 0), (True, Some 1)]"
  by code_simp

text \<open>
  Claim C2, as the code has it. The elapsed time of the rate limiter is measured from
  \<open>last_frame_time\<close>, the clock reading of the last read the device answered with
  success, not from the previous call. (1) When that elapsed time is below
  \<open>frame_interval\<close> and a cached frame exists, \<open>read()\<close> returns the cached frame and
  leaves the camera, the device counter included, as it was. (2) When no cached frame
  exists, the call reads the device: the answer is the device's, and the counter
  advances. (3) Hence, if a call at \<open>t1\<close> got a fresh frame from the device, a call
  at \<open>t2\<close> less than \<open>frame_interval\<close> after \<open>t1\<close> returns the identical answer and
  does not touch the device.
\<close>

theorem rate_limited_read:
  "(py_sub t (last_frame_time c) < frame_interval c \<and> last_frame_valid c \<longrightarrow>
      read dev c t = Inr (c, True, last_frame c))
   \<and> (py_sub t' (last_frame_time c') < frame_interval c' \<and> \<not> last_frame_valid c' \<and>
        video_capture c' = Some n' \<longrightarrow>
      (\<exists>c1'. read dev' c' t' = Inr (c1', dev' n') \<and> video_capture c1' = Some (Suc n')))
   \<and> (video_capture c0 = Some n \<and> fst (dev0 n) \<and> read dev0 c0 t1 = Inr (c1, r1) \<and>
        video_capture c1 \<noteq> video_capture c0 \<and> py_sub t2 t1 < frame_interval c0 \<longrightarrow>
      r1 = dev0 n \<and> read dev0 c1 t2 = Inr (c1, r1))"
proof (intro conjI impI)
  assume "py_sub t (last_frame_time c) < frame_interval c \<and> last_frame_valid c"
  then show "read dev c t = Inr (c, True, last_frame c)"
    by (simp add: cached_read)
next
  assume "py_sub t' (last_frame_time c') < frame_interval c' \<and> \<not> last_frame_valid c' \<and>
        video_capture c' = Some n'"
  then show "\<exists>c1'. read dev' c' t' = Inr (c1', dev' n') \<and> video_capture c1' = Some (Suc n')"
    using uncached_read by blast
next
  assume a: "video_capture c0 = Some n \<and> fst (dev0 n) \<and> read dev0 c0 t1 = Inr (c1, r1) \<and>
        video_capture c1 \<noteq> video_capture c0 \<and> py_sub t2 t1 < frame_interval c0"
  then have f: "r1 = dev0 n \<and> last_frame c1 = snd (dev0 n) \<and> last_frame_valid c1 \<and>
      last_frame_time c1 = t1 \<and> frame_interval c1 = frame_interval c0"
    using fresh_read[of c0 n dev0 t1 c1 r1] by blast
  then show "r1 = dev0 n" by simp
  from a f have "read dev0 c1 t2 = Inr (c1, True, last_frame c1)"
    by (simp add: cached_read)
  with a f show "read dev0 c1 t2 = Inr (c1, r1)"
    by (cases "dev0 n") auto
qed

theorem rate_limited_read_witness:
  "(py_sub (1000 + 1 / 32) (last_frame_time warm_camera) < frame_interval warm_camera \<and>
    last_frame_valid warm_camera \<and>
    read steady_device warm_camera (1000 + 1 / 32) = Inr (warm_camera, True, Some 0))
   \<and> (py_sub 0 (last_frame_time default_camera) < frame_interval default_camera \<and>
       \<not> last_frame_valid default_camera \<and> video_capture default_camera = Some 0 \<and>
       (\<exists>c1'. read steady_device default_camera 0 = Inr (c1', True, Some 0) \<and>
              video_capture c1' = Some 1))
   \<and> (video_capture default_camera = Some 0 \<and> fst (steady_device 0) \<and>
       read steady_device default_camera 1000 = Inr (warm_camera, True, Some 0) \<and>
       video_capture warm_camera \<noteq> video_capture default_camera \<and>
       py_sub (1000 + 1 / 32) 1000 < frame_interval default_camera \<and>
       read steady_device warm_camera (1000 + 1 / 32) = Inr (warm_camera, True, Some 0))"
proof -
  have w: "last_frame_time warm_camera = 1000" "last_frame_valid warm_camera"
    "frame_interval warm_camera = frame_interval default_camera"
    "last_frame warm_camera = Some 0" "video_capture warm_camera = Some 1"
    by (simp_all add: warm_camera_def)
  have d: "\<not> last_frame_valid default_camera" "video_capture default_camera = Some 0"
    by (simp_all add: default_camera_def)
  have s: "fst (steady_device 0)" "steady_device 0 = (True, Some 0)"
    by (simp_all add: steady_device_def)
  note inst = rate_limited_read[of "1000 + 1 / 32" warm_camera steady_device
      0 default_camera 0 steady_device default_camera 0 steady_device 1000 warm_camera
      "(True, Some 0)" "1000 + 1 / 32"]
  show ?thesis
    using inst w d s first_read_at_1000 second_read_is_early read_at_clock_zero
    by simp
qed

text \<open>
  Claim C2 as stated fails: on a device that never fails, the second and the third of
  three calls are 1/64 s apart, less than the interval of a 30 fps camera, and they
  return different frames, because the second call was served from the cache and the
  third is more than the interval after the first.
\<close>

theorem close_reads_differ:
  "answers steady_device default_camera [1000, 1000 + 1 / 32, 1000 + 3 / 64] =
     Inr [(True, Some 0), (True, Some 0), (True, Some 1)]
   \<and> py_sub (1000 + 3 / 64) (1000 + 1 / 32) < frame_interval default_camera
   \<and> fst (steady_device 0) \<and> fst (steady_device 1)"
  using three_answers third_read_is_close by (simp add: steady_device_def)

subsection \<open>The classifier\<close>

lemma map_of_no_face:
  "map_of no_face_result ''face_detected'' = Some (PBool False)"
  "map_of no_face_result ''emotions'' = Some (PScores [])"
  "map_of no_face_result ''face_bbox'' = Some PNone"
  "map_of no_face_result ''dominant_emotion'' = Some PNone"
  by (simp_all add: no_face_result_def)

lemma map_of_error:
  "map_of (error_result e) ''face_detected'' = Some (PBool False)"
  "map_of (error_result e) ''emotions'' = Some (PScores [])"
  "map_of (error_result e) ''face_bbox'' = Some PNone"
  "map_of (error_result e) ''dominant_emotion'' = Some PNone"
  "map_of (error_result e) ''error'' = Some (PStr (str_exception e))"
  by (simp_all add: error_result_def)

text \<open>The three return statements of the method.\<close>

lemma detect_shapes:
  "detect_emotions_from_frame cv frame silent = Inr (ODict no_face_result)
   \<or> (\<exists>e. detect_emotions_from_frame cv frame silent = Inr (ODict (error_result e)))
   \<or> (\<exists>es dom r g b x y w h. detect_emotions_from_frame cv frame silent =
        Inr (ODict [(''emotions'', PScores es), (''dominant_emotion'', PStr dom),
             (''emotion_color_rgb'', PTuple [r, g, b]),
             (''emotion_color_bgr'', PTuple [b, g, r]),
             (''face_detected'', PBool True),
             (''face_bbox'', PTuple [x, y, w, h])]))"
  unfolding detect_emotions_from_frame_def detect_try_body_def
  by (auto split: sum.split list.split prod.split)


lemma no_faces:
  "cvtColor_BGR2GRAY cv frame = Inr gray \<Longrightarrow> detectMultiScale cv gray = Inr [] \<Longrightarrow>
    detect_emotions_from_frame cv frame silent = Inr (ODict no_face_result)
    \<or> (\<exists>e. detect_emotions_from_frame cv frame silent = Inr (ODict (error_result e)))"
  unfolding detect_emotions_from_frame_def detect_try_body_def
  by (auto split: sum.split)



lemma publish_no_face: "publish s (ODict no_face_result) t1 t2 = Inr s"
  by (simp add: publish_def getitem_def no_face_result_def)

lemma publish_error: "publish s (ODict (error_result e)) t1 t2 = Inr s"
  by (simp add: publish_def getitem_def error_result_def)

lemma publish_not_detected:
  "map_of d ''face_detected'' = Some (PBool False) \<Longrightarrow> publish s (ODict d) t1 t2 = Inr s"
  by (simp add: publish_def getitem_def)

lemma publish_detected:
  "face_detected r \<Longrightarrow>
     publish s r t1 t2 = Inr (publish_statements (result_emotions r) t1 t2 s)"
  by (cases r)
     (auto simp: publish_def getitem_def convert_numpy_types_def
           split: option.splits pyval.splits)

lemma publish_statements_eq:
  "publish_statements es t1 t2 s =
     \<lparr>data = \<lparr>emotions = es, scores_out_of_10 = convert_to_out_of_10 es, timestamp = Some t2\<rparr>,
      emotion_history =
        deque_append 10 (emotion_history s) \<lparr>entry_emotions = es, entry_timestamp = t1\<rparr>\<rparr>"
  by (simp add: publish_statements_def numeral_3_eq_3 numeral_2_eq_2)

lemma detect_then_publish:
  "\<exists>d s'. detect_emotions_from_frame cv frame silent = Inr (ODict d) \<and>
          publish s (ODict d) t1 t2 = Inr s'"
proof -
  consider
    (none) "detect_emotions_from_frame cv frame silent = Inr (ODict no_face_result)"
  | (err) e where "detect_emotions_from_frame cv frame silent = Inr (ODict (error_result e))"
  | (face) es dom r g b x y w h where "detect_emotions_from_frame cv frame silent =
        Inr (ODict [(''emotions'', PScores es), (''dominant_emotion'', PStr dom),
             (''emotion_color_rgb'', PTuple [r, g, b]),
             (''emotion_color_bgr'', PTuple [b, g, r]),
             (''face_detected'', PBool True),
             (''face_bbox'', PTuple [x, y, w, h])])"
    using detect_shapes[of cv frame silent] by blast
  then show ?thesis
  proof cases
    case none
    then show ?thesis by (simp add: publish_no_face)
  next
    case err
    then show ?thesis by (simp add: publish_error)
  next
    case face
    then show ?thesis by (simp add: getitem_def publish_def)
  qed
qed

text \<open>A pass through the loop body raises nothing unless the camera read does.\<close>

lemma loop_iteration_returns:
  assumes "read_flipped flip dev c now = Inr (c1, ret, frame)"
  shows "\<exists>s1. loop_iteration flip dev cv (c, s) now t1 t2 = Inr (c1, s1)"
proof (cases frame)
  case None
  with assms show ?thesis by (simp add: loop_iteration_def)
next
  case (Some f)
  from detect_then_publish[of cv f True s t1 t2]
  obtain d s' where "detect_emotions_from_frame cv f True = Inr (ODict d)"
    "publish s (ODict d) t1 t2 = Inr s'"
    by blast
  with assms Some show ?thesis by (simp add: loop_iteration_def)
qed


lemma detected_false_shape:
  assumes "detect_emotions_from_frame cv frame silent = Inr (ODict d)"
    and "map_of d ''face_detected'' = Some (PBool False)"
  shows "map_of d ''emotions'' = Some (PScores []) \<and> map_of d ''face_bbox'' = Some PNone"
proof -
  consider
    (none) "detect_emotions_from_frame cv frame silent = Inr (ODict no_face_result)"
  | (err) e where "detect_emotions_from_frame cv frame silent = Inr (ODict (error_result e))"
  | (face) es dom r g b x y w h where "detect_emotions_from_frame cv frame silent =
        Inr (ODict [(''emotions'', PScores es), (''dominant_emotion'', PStr dom),
             (''emotion_color_rgb'', PTuple [r, g, b]),
             (''emotion_color_bgr'', PTuple [b, g, r]),
             (''face_detected'', PBool True),
             (''face_bbox'', PTuple [x, y, w, h])])"
    using detect_shapes[of cv frame silent] by blast
  then show ?thesis
  proof cases
    case none
    with assms(1) have "d = no_face_result" by simp
    then show ?thesis by (simp add: map_of_no_face)
  next
    case err
    with assms(1) have "d = error_result e" by simp
    then show ?thesis by (simp add: map_of_error)
  next
    case face
    with assms show ?thesis by auto
  qed
qed

lemma no_faces_result:
  assumes "cvtColor_BGR2GRAY cv frame = Inr gray" "detectMultiScale cv gray = Inr []"
  shows "\<exists>d. detect_emotions_from_frame cv frame silent = Inr (ODict d) \<and>
           map_of d ''face_detected'' = Some (PBool False) \<and>
           map_of d ''emotions'' = Some (PScores []) \<and> map_of d ''face_bbox'' = Some PNone"
  using no_faces[OF assms, of silent] map_of_no_face map_of_error by auto

text \<open>
  Claim C3: when the cascade locates no face in the frame, the method returns a
  dictionary with \<open>face_detected\<close> false, empty \<open>emotions\<close> and \<open>face_bbox\<close>
  \<open>None\<close>; and whatever the method returns, \<open>face_detected\<close> false comes with empty
  \<open>emotions\<close> and \<open>face_bbox\<close> \<open>None\<close>.
\<close>

theorem no_face_no_scores:
  "(cvtColor_BGR2GRAY cv frame = Inr gray \<and> detectMultiScale cv gray = Inr [] \<longrightarrow>
      (\<exists>d. detect_emotions_from_frame cv frame silent = Inr (ODict d) \<and>
           map_of d ''face_detected'' = Some (PBool False) \<and>
           map_of d ''emotions'' = Some (PScores []) \<and> map_of d ''face_bbox'' = Some PNone))
   \<and> (detect_emotions_from_frame cv' frame' silent' = Inr (ODict d') \<and>
        map_of d' ''face_detected'' = Some (PBool False) \<longrightarrow>
      map_of d' ''emotions'' = Some (PScores []) \<and> map_of d' ''face_bbox'' = Some PNone)"
  using no_faces_result[of cv frame gray silent]
    detected_false_shape[of cv' frame' silent' d']
  by blast

lemma stub_no_face:
  "detect_emotions_from_frame stub_vision 0 True = Inr (ODict no_face_result)"
  by (simp add: detect_emotions_from_frame_def detect_try_body_def stub_vision_def)

lemma stub_gray: "cvtColor_BGR2GRAY stub_vision 0 = Inr 0" "detectMultiScale stub_vision 0 = Inr []"
  by (simp_all add: stub_vision_def)

theorem no_face_no_scores_witness:
  "(cvtColor_BGR2GRAY stub_vision 0 = Inr 0 \<and> detectMultiScale stub_vision 0 = Inr [] \<and>
      (\<exists>d. detect_emotions_from_frame stub_vision 0 True = Inr (ODict d) \<and>
           map_of d ''face_detected'' = Some (PBool False) \<and>
           map_of d ''emotions'' = Some (PScores []) \<and> map_of d ''face_bbox'' = Some PNone))
   \<and> (detect_emotions_from_frame stub_vision 0 True = Inr (ODict no_face_result) \<and>
        map_of no_face_result ''face_detected'' = Some (PBool False) \<and>
      map_of no_face_result ''emotions'' = Some (PScores []) \<and>
      map_of no_face_result ''face_bbox'' = Some PNone)"
  using no_face_no_scores[of stub_vision 0 0 True stub_vision 0 True no_face_result]
    stub_no_face stub_gray map_of_no_face(1)
  by simp







subsection \<open>Publishing\<close>

text \<open>
  Claim C5: a result whose \<open>face_detected\<close> is false leaves the shared state as it
  is: \<open>emotions\<close>, \<open>scores_out_of_10\<close>, \<open>timestamp\<close> and the history buffer are the
  ones of the last successful detection.
\<close>

theorem publish_without_face_is_noop:
  "map_of d ''face_detected'' = Some (PBool False) \<Longrightarrow>
     publish s (ODict d) t1 t2 = Inr s"
  by (rule publish_not_detected)

theorem publish_without_face_is_noop_witness:
  "map_of no_face_result ''face_detected'' = Some (PBool False) \<and>
   publish happy_app (ODict no_face_result) 2000 2000 = Inr happy_app"
  using publish_without_face_is_noop[of no_face_result happy_app 2000 2000] map_of_no_face(1)
  by simp

lemma deque_append_drop:
  "length d \<le> n \<Longrightarrow> deque_append n d x = drop (length d + 1 - n) (d @ [x])"
  by (cases d) (auto simp: deque_append_def Let_def drop_Cons' le_Suc_eq)

lemma history_after_publish:
  assumes "face_detected r" "length (emotion_history s) \<le> 10"
  shows "\<exists>s1. publish s r t1 t2 = Inr s1 \<and>
           emotion_history s1 =
             drop (length (emotion_history s) + 1 - 10) (emotion_history s @ [entry_of (r, t1, t2)])"
  using assms
  by (simp add: publish_detected publish_statements_eq deque_append_drop entry_of_def)

lemma trim_twice:
  assumes "length h \<le> 10"
  shows "drop (length (drop (length h + 1 - 10) (h @ [e])) + n - 10)
           (drop (length h + 1 - 10) (h @ [e]) @ xs) =
         drop (length h + Suc n - 10) (h @ e # xs)"
proof (cases "length h = 10")
  case True
  then obtain a h' where h: "h = a # h'" by (cases h) auto
  with True have "length h' = 9" by simp
  with h show ?thesis by simp
next
  case False
  with assms have "length h + 1 - 10 = 0" by simp
  then show ?thesis by simp
qed

lemma history_after_publishes:
  "length (emotion_history s) \<le> 10 \<Longrightarrow> list_all (\<lambda>p. face_detected (fst p)) ps \<Longrightarrow>
     \<exists>s'. publish_all s ps = Inr s' \<and>
          emotion_history s' =
            drop (length (emotion_history s) + length ps - 10)
              (emotion_history s @ map entry_of ps)"
proof (induction ps arbitrary: s)
  case Nil
  then show ?case by simp
next
  case (Cons p ps)
  obtain r t1 t2 where p: "p = (r, t1, t2)" by (cases p)
  from Cons.prems p have fd: "face_detected r" by simp
  from history_after_publish[OF fd Cons.prems(1), of t1 t2]
  obtain s1 where s1: "publish s r t1 t2 = Inr s1"
    and h1: "emotion_history s1 =
       drop (length (emotion_history s) + 1 - 10) (emotion_history s @ [entry_of (r, t1, t2)])"
    by blast
  from h1 Cons.prems(1) have len1: "length (emotion_history s1) \<le> 10" by simp
  from Cons.prems(2) have "list_all (\<lambda>p. face_detected (fst p)) ps" by simp
  from Cons.IH[OF len1 this]
  obtain s' where s': "publish_all s1 ps = Inr s'"
    and h': "emotion_history s' =
       drop (length (emotion_history s1) + length ps - 10) (emotion_history s1 @ map entry_of ps)"
    by blast
  have "emotion_history s' =
      drop (length (emotion_history s) + length (p # ps) - 10)
        (emotion_history s @ map entry_of (p # ps))"
    using h' h1 trim_twice[OF Cons.prems(1), of "entry_of (r, t1, t2)" "length ps" "map entry_of ps"] p
    by simp
  with s1 s' p show ?case by simp
qed

text \<open>
  Claim C6: the history buffer never holds more than 10 entries. Publishing results
  that report a face appends their entries in the order of the publishes and evicts
  from the old end; the entries kept are the last 10 of the old buffer followed by
  the new entries, each as it was appended. After 15 such publishes on the empty
  buffer it holds exactly the last 10 entries, oldest to newest.
\<close>

theorem history_keeps_last_10:
  "(length (emotion_history s) \<le> 10 \<and> list_all (\<lambda>p. face_detected (fst p)) ps \<longrightarrow>
      (\<exists>s'. publish_all s ps = Inr s' \<and> length (emotion_history s') \<le> 10 \<and>
            emotion_history s' =
              drop (length (emotion_history s) + length ps - 10)
                (emotion_history s @ map entry_of ps)))
   \<and> (length ps' = 15 \<and> list_all (\<lambda>p. face_detected (fst p)) ps' \<longrightarrow>
        (\<exists>s'. publish_all initial_app ps' = Inr s' \<and> length (emotion_history s') = 10 \<and>
              emotion_history s' = drop 5 (map entry_of ps')))"
proof (intro conjI impI)
  assume a: "length (emotion_history s) \<le> 10 \<and> list_all (\<lambda>p. face_detected (fst p)) ps"
  then obtain s' where s': "publish_all s ps = Inr s'"
    "emotion_history s' =
       drop (length (emotion_history s) + length ps - 10) (emotion_history s @ map entry_of ps)"
    using history_after_publishes[of s ps] by blast
  then have "length (emotion_history s') \<le> 10" by simp
  with s' show "\<exists>s'. publish_all s ps = Inr s' \<and> length (emotion_history s') \<le> 10 \<and>
            emotion_history s' =
              drop (length (emotion_history s) + length ps - 10)
                (emotion_history s @ map entry_of ps)"
    by blast
next
  assume a: "length ps' = 15 \<and> list_all (\<lambda>p. face_detected (fst p)) ps'"
  have "length (emotion_history initial_app) \<le> 10" by (simp add: initial_app_def)
  with a obtain s' where s': "publish_all initial_app ps' = Inr s'"
    "emotion_history s' =
       drop (length (emotion_history initial_app) + length ps' - 10)
         (emotion_history initial_app @ map entry_of ps')"
    using history_after_publishes[of initial_app ps'] by blast
  with a have "emotion_history s' = drop 5 (map entry_of ps')"
    by (simp add: initial_app_def)
  moreover from this a have "length (emotion_history s') = 10" by simp
  ultimately show "\<exists>s'. publish_all initial_app ps' = Inr s' \<and> length (emotion_history s') = 10 \<and>
              emotion_history s' = drop 5 (map entry_of ps')"
    using s'(1) by blast
qed

lemma fifteen_detected:
  "length fifteen_publishes = 15" "list_all (\<lambda>p. face_detected (fst p)) fifteen_publishes"
  by (simp_all add: fifteen_publishes_def face_result_def list_all_iff)

lemma fifteen_entries:
  "map entry_emotions (drop 5 (map entry_of fifteen_publishes)) =
     [[(''happy'', 5)], [(''happy'', 6)], [(''happy'', 7)], [(''happy'', 8)], [(''happy'', 9)],
      [(''happy'', 10)], [(''happy'', 11)], [(''happy'', 12)], [(''happy'', 13)], [(''happy'', 14)]]"
  by code_simp

theorem history_keeps_last_10_witness:
  "length (emotion_history initial_app) \<le> 10 \<and> length fifteen_publishes = 15 \<and>
   list_all (\<lambda>p. face_detected (fst p)) fifteen_publishes \<and>
   (\<exists>s'. publish_all initial_app fifteen_publishes = Inr s' \<and>
         length (emotion_history s') = 10 \<and>
         map entry_emotions (emotion_history s') =
     [[(''happy'', 5)], [(''happy'', 6)], [(''happy'', 7)], [(''happy'', 8)], [(''happy'', 9)],
      [(''happy'', 10)], [(''happy'', 11)], [(''happy'', 12)], [(''happy'', 13)], [(''happy'', 14)]])"
  using history_keeps_last_10[of initial_app fifteen_publishes fifteen_publishes]
    fifteen_detected fifteen_entries
  by (auto simp: initial_app_def)

subsection \<open>The dominant emotion\<close>

lemma max_by_value_split:
  "\<exists>pre m post. b # xs = pre @ m # post \<and> max_by_value b xs = m \<and>
      (\<forall>p\<in>set pre. snd p < snd m) \<and> (\<forall>p\<in>set post. snd p \<le> snd m)"
proof (induction xs arbitrary: b)
  case Nil
  show ?case
    by (rule exI[of _ "[]"], rule exI[of _ b], rule exI[of _ "[]"]) simp
next
  case (Cons x xs)
  show ?case
  proof (cases "snd b < snd x")
    case True
    from Cons.IH[of x] obtain pre m post where d: "x # xs = pre @ m # post"
      "max_by_value x xs = m" "\<forall>p\<in>set pre. snd p < snd m" "\<forall>p\<in>set post. snd p \<le> snd m"
      by blast
    have "x \<in> set (x # xs)" by simp
    then have "x \<in> set pre \<or> x = m \<or> x \<in> set post" unfolding d(1) by auto
    with d(3,4) have "snd x \<le> snd m" by auto
    with True have lt: "snd b < snd m" by simp
    have 1: "b # x # xs = (b # pre) @ m # post" using d(1) by simp
    have 2: "max_by_value b (x # xs) = m" using True d(2) by simp
    have 3: "\<forall>p\<in>set (b # pre). snd p < snd m" using lt d(3) by simp
    show ?thesis
      by (rule exI[of _ "b # pre"], rule exI[of _ m], rule exI[of _ post])
         (intro conjI 1 2 3 d(4))
  next
    case False
    from Cons.IH[of b] obtain pre m post where d: "b # xs = pre @ m # post"
      "max_by_value b xs = m" "\<forall>p\<in>set pre. snd p < snd m" "\<forall>p\<in>set post. snd p \<le> snd m"
      by blast
    have 2: "max_by_value b (x # xs) = m" using False d(2) by simp
    show ?thesis
    proof (cases pre)
      case Nil
      with d(1) have mb: "m = b" "post = xs" by simp_all
      have 1: "b # x # xs = [] @ m # (x # post)" using mb by simp
      have 3: "\<forall>p\<in>set (x # post). snd p \<le> snd m" using False mb d(4) by simp
      have 4: "\<forall>p\<in>set []. snd p < snd m" by simp
      show ?thesis
        by (rule exI[of _ "[]"], rule exI[of _ m], rule exI[of _ "x # post"])
           (intro conjI 1 2 3 4)
    next
      case (Cons a pre')
      with d(1) have ab: "a = b" "xs = pre' @ m # post" by simp_all
      from d(3) Cons ab have bm: "snd b < snd m" by simp
      with False have xm: "snd x < snd m" by simp
      have 1: "b # x # xs = (b # x # pre') @ m # post" using ab by simp
      have 3: "\<forall>p\<in>set (b # x # pre'). snd p < snd m" using xm bm d(3) Cons by simp
      show ?thesis
        by (rule exI[of _ "b # x # pre'"], rule exI[of _ m], rule exI[of _ post])
           (intro conjI 1 2 3 d(4))
    qed
  qed
qed

lemma first_maximum_unique:
  fixes m m' :: "'a \<times> rat"
  assumes eq: "pre @ m # post = pre' @ m' # post'"
    and "\<forall>p\<in>set pre. snd p < snd m" "\<forall>p\<in>set post. snd p \<le> snd m"
    and "\<forall>p\<in>set pre'. snd p < snd m'" "\<forall>p\<in>set post'. snd p \<le> snd m'"
  shows "pre = pre' \<and> m = m'"
proof -
  from eq consider
    (left) us where "pre = pre' @ us" "us @ m # post = m' # post'"
  | (right) us where "pre @ us = pre'" "m # post = us @ m' # post'"
    by (auto simp: append_eq_append_conv2)
  then show ?thesis
  proof cases
    case left
    show ?thesis
    proof (cases us)
      case Nil
      with left show ?thesis by simp
    next
      case (Cons u us')
      with left have "m' \<in> set pre" "m \<in> set post'" by auto
      with assms show ?thesis by fastforce
    qed
  next
    case right
    show ?thesis
    proof (cases us)
      case Nil
      with right show ?thesis by simp
    next
      case (Cons u us')
      with right have "m \<in> set pre'" "m' \<in> set post" by auto
      with assms show ?thesis by fastforce
    qed
  qed
qed

lemma happy_sad_tie: "dominant_emotion [(''happy'', 50), (''sad'', 50)] = Inr ''happy''"
  by (simp add: dominant_emotion_def)

text \<open>
  Claim C8: for scores that are not empty, the dominant emotion is the key of the
  first entry, in the dictionary's iteration order, whose confidence is the maximum:
  every entry before it is strictly smaller and no entry after it is greater. For
  \<open>{happy: 50, sad: 50}\<close> it is \<open>happy\<close>.
\<close>

theorem dominant_is_first_maximum:
  "(es \<noteq> [] \<longrightarrow>
      (\<exists>pre k v post. es = pre @ (k, v) # post \<and> dominant_emotion es = Inr k \<and>
          (\<forall>p\<in>set pre. snd p < v) \<and> (\<forall>p\<in>set post. snd p \<le> v) \<and>
          format_dominant_emotion es = Inr (''I am feeling '' @ capitalize k)))
   \<and> dominant_emotion [(''happy'', 50), (''sad'', 50)] = Inr ''happy''"
proof (intro conjI impI)
  assume "es \<noteq> []"
  then obtain b xs where es: "es = b # xs" by (cases es) auto
  from max_by_value_split[of b xs] obtain pre m post where d: "b # xs = pre @ m # post"
      "max_by_value b xs = m" "\<forall>p\<in>set pre. snd p < snd m" "\<forall>p\<in>set post. snd p \<le> snd m"
    by blast
  obtain k v where m: "m = (k, v)" by (cases m)
  have dom: "dominant_emotion es = Inr k"
    using es d(2) m by (simp add: dominant_emotion_def)
  have fmt: "format_dominant_emotion es = Inr (''I am feeling '' @ capitalize k)"
    using es dom by (simp add: format_dominant_emotion_def)
  have "es = pre @ (k, v) # post \<and> dominant_emotion es = Inr k \<and>
          (\<forall>p\<in>set pre. snd p < v) \<and> (\<forall>p\<in>set post. snd p \<le> v) \<and>
          format_dominant_emotion es = Inr (''I am feeling '' @ capitalize k)"
    using d(1,3,4) es m dom fmt by simp
  then show "\<exists>pre k v post. es = pre @ (k, v) # post \<and> dominant_emotion es = Inr k \<and>
          (\<forall>p\<in>set pre. snd p < v) \<and> (\<forall>p\<in>set post. snd p \<le> v) \<and>
          format_dominant_emotion es = Inr (''I am feeling '' @ capitalize k)"
    by blast
qed (rule happy_sad_tie)

lemma capitalize_happy: "capitalize ''happy'' = ''Happy''"
  by code_simp

theorem dominant_is_first_maximum_witness:
  "[(''sad'', 20), (''happy'', 50), (''neutral'', 50)] \<noteq> [] \<and>
   dominant_emotion [(''sad'', 20), (''happy'', 50), (''neutral'', 50)] = Inr ''happy'' \<and>
   format_dominant_emotion [(''sad'', 20), (''happy'', 50), (''neutral'', 50)] =
     Inr ''I am feeling Happy''"
proof -
  let ?es = "[(''sad'', 20 :: rat), (''happy'', 50), (''neutral'', 50)]"
  from dominant_is_first_maximum[of ?es]
  obtain pre k v post where d: "?es = pre @ (k, v) # post" "dominant_emotion ?es = Inr k"
    "\<forall>p\<in>set pre. snd p < v" "\<forall>p\<in>set post. snd p \<le> v"
    "format_dominant_emotion ?es = Inr (''I am feeling '' @ capitalize k)"
    by blast
  have "pre @ (k, v) # post = [(''sad'', 20)] @ (''happy'', 50) # [(''neutral'', 50)]"
    using d(1) by simp
  from first_maximum_unique[OF this] d(3,4) have "k = ''happy''"
    by simp
  with d(2,5) capitalize_happy show ?thesis by simp
qed

subsection \<open>Scores out of 10\<close>








lemma face_result_facts:
  "face_detected (face_result es)" "result_emotions (face_result es) = es"
  by (simp_all add: face_result_def)


subsection \<open>Starting the loop\<close>











lemma run_example:
  "run_events [Start, Start, Stop, LoopTest 0, Start] initial_control =
     \<lparr>emotion_detection_running = True, emotion_detection_thread = Some 1,
      threads = [Exited, Alive]\<rparr>"
  by code_simp



subsection \<open>A reader beside the writer\<close>

lemma publish_statement_done: "4 \<le> pc \<Longrightarrow> publish_statement pc es t1 t2 s = s"
proof -
  assume "4 \<le> pc"
  then have "pc = Suc (Suc (Suc (Suc (pc - 4))))" by simp
  then obtain n where "pc = Suc (Suc (Suc (Suc n)))" ..
  then show ?thesis by simp
qed

lemma snapshots_after_publish:
  "4 \<le> pc \<Longrightarrow> ob \<in> set (interleave es t1 t2 sched pc s) \<Longrightarrow> ob = get_latest_emotions s"
proof (induction sched arbitrary: pc)
  case Nil
  then show ?case by simp
next
  case (Cons a sched)
  show ?case
  proof (cases a)
    case Writer
    with Cons.prems have "ob \<in> set (interleave es t1 t2 sched (Suc pc) s)"
      by (simp add: publish_statement_done)
    moreover from Cons.prems have "4 \<le> Suc pc" by simp
    ultimately show ?thesis by (rule Cons.IH[rotated])
  next
    case Reader
    with Cons.prems Cons.IH[of pc] show ?thesis by auto
  qed
qed

lemma snapshots_from_3:
  "ob \<in> set (interleave es t1 t2 sched 3 s) \<Longrightarrow>
     ob = get_latest_emotions s \<or> ob = get_latest_emotions (publish_statement 3 es t1 t2 s)"
proof (induction sched)
  case Nil
  then show ?case by simp
next
  case (Cons a sched)
  show ?case
  proof (cases a)
    case Writer
    with Cons.prems
    have "ob \<in> set (interleave es t1 t2 sched (Suc 3) (publish_statement 3 es t1 t2 s))"
      by simp
    then have "ob = get_latest_emotions (publish_statement 3 es t1 t2 s)"
      by (rule snapshots_after_publish[rotated]) simp
    then show ?thesis by simp
  next
    case Reader
    with Cons show ?thesis by auto
  qed
qed

lemma snapshots_from_2:
  "ob \<in> set (interleave es t1 t2 sched 2 s) \<Longrightarrow>
     ob = get_latest_emotions s \<or> ob = get_latest_emotions (publish_statement 2 es t1 t2 s)
     \<or> ob = get_latest_emotions (publish_statement 3 es t1 t2 (publish_statement 2 es t1 t2 s))"
proof (induction sched)
  case Nil
  then show ?case by simp
next
  case (Cons a sched)
  show ?case
  proof (cases a)
    case Writer
    with Cons.prems
    have "ob \<in> set (interleave es t1 t2 sched 3 (publish_statement 2 es t1 t2 s))"
      by (simp add: eval_nat_numeral)
    from snapshots_from_3[OF this] show ?thesis by blast
  next
    case Reader
    with Cons show ?thesis by auto
  qed
qed

lemma snapshots_from_1:
  "ob \<in> set (interleave es t1 t2 sched 1 s) \<Longrightarrow>
     ob = get_latest_emotions s \<or> ob = get_latest_emotions (publish_statement 1 es t1 t2 s)
     \<or> ob = get_latest_emotions (publish_statement 2 es t1 t2 (publish_statement 1 es t1 t2 s))
     \<or> ob = get_latest_emotions (publish_statement 3 es t1 t2
              (publish_statement 2 es t1 t2 (publish_statement 1 es t1 t2 s)))"
proof (induction sched)
  case Nil
  then show ?case by simp
next
  case (Cons a sched)
  show ?case
  proof (cases a)
    case Writer
    with Cons.prems
    have "ob \<in> set (interleave es t1 t2 sched 2 (publish_statement 1 es t1 t2 s))"
      by (simp add: eval_nat_numeral)
    from snapshots_from_2[OF this] show ?thesis by blast
  next
    case Reader
    with Cons show ?thesis by auto
  qed
qed

lemma snapshot_ignores_history:
  "get_latest_emotions (publish_statement 0 es t1 t2 s) = get_latest_emotions s"
  by (simp add: get_latest_emotions_def)

lemma snapshots_from_0:
  "ob \<in> set (interleave es t1 t2 sched 0 s) \<Longrightarrow>
     ob = get_latest_emotions s
     \<or> ob = get_latest_emotions (publish_statement 1 es t1 t2 (publish_statement 0 es t1 t2 s))
     \<or> ob = get_latest_emotions (publish_statement 2 es t1 t2
              (publish_statement 1 es t1 t2 (publish_statement 0 es t1 t2 s)))
     \<or> ob = get_latest_emotions (publish_statements es t1 t2 s)"
proof (induction sched)
  case Nil
  then show ?case by simp
next
  case (Cons a sched)
  show ?case
  proof (cases a)
    case Writer
    with Cons.prems
    have "ob \<in> set (interleave es t1 t2 sched 1 (publish_statement 0 es t1 t2 s))"
      by simp
    from snapshots_from_1[OF this] show ?thesis
      unfolding snapshot_ignores_history publish_statements_def by blast
  next
    case Reader
    with Cons show ?thesis by auto
  qed
qed

lemma snapshot_records:
  "get_latest_emotions (publish_statement 1 es t1 t2 (publish_statement 0 es t1 t2 s)) =
     (get_latest_emotions s)\<lparr>emotions := es\<rparr>"
  "get_latest_emotions (publish_statement 2 es t1 t2
      (publish_statement 1 es t1 t2 (publish_statement 0 es t1 t2 s))) =
     (get_latest_emotions s)\<lparr>emotions := es, scores_out_of_10 := convert_to_out_of_10 es\<rparr>"
  "get_latest_emotions (publish_statements es t1 t2 s) =
     (get_latest_emotions s)\<lparr>emotions := es, scores_out_of_10 := convert_to_out_of_10 es,
        timestamp := Some t2\<rparr>"
  by (simp_all add: get_latest_emotions_def convert_numpy_types_def publish_statements_def
        eval_nat_numeral)

text \<open>
  Claim C1, as the code has it: the publish replaces the three fields one after the
  other, in the order \<open>emotions\<close>, \<open>scores_out_of_10\<close>, \<open>timestamp\<close>, with no lock.
  Each field is replaced whole, and a snapshot taken while one publish runs is the
  old record with a prefix of these replacements applied: the old record, the old
  record with the new emotions, the old record with the new emotions and scores, or
  the new record. The four statements run without interruption are the publish.
\<close>

theorem snapshot_sees_prefix_of_publish:
  "(\<forall>ob \<in> set (interleave es t1 t2 sched 0 s).
      ob = get_latest_emotions s
      \<or> ob = (get_latest_emotions s)\<lparr>emotions := es\<rparr>
      \<or> ob = (get_latest_emotions s)\<lparr>emotions := es,
                scores_out_of_10 := convert_to_out_of_10 es\<rparr>
      \<or> ob = get_latest_emotions (publish_statements es t1 t2 s))
   \<and> get_latest_emotions (publish_statements es t1 t2 s) =
       \<lparr>emotions = es, scores_out_of_10 = convert_to_out_of_10 es, timestamp = Some t2\<rparr>
   \<and> (face_detected r \<longrightarrow>
        publish s r t1 t2 = Inr (publish_statements (result_emotions r) t1 t2 s))"
proof (intro conjI ballI impI)
  fix ob
  assume "ob \<in> set (interleave es t1 t2 sched 0 s)"
  from snapshots_from_0[OF this]
  show "ob = get_latest_emotions s
      \<or> ob = (get_latest_emotions s)\<lparr>emotions := es\<rparr>
      \<or> ob = (get_latest_emotions s)\<lparr>emotions := es,
                scores_out_of_10 := convert_to_out_of_10 es\<rparr>
      \<or> ob = get_latest_emotions (publish_statements es t1 t2 s)"
    by (simp only: snapshot_records(1,2))
next
  show "get_latest_emotions (publish_statements es t1 t2 s) =
       \<lparr>emotions = es, scores_out_of_10 = convert_to_out_of_10 es, timestamp = Some t2\<rparr>"
    by (simp add: publish_statements_eq get_latest_emotions_def convert_numpy_types_def)
next
  assume "face_detected r"
  then show "publish s r t1 t2 = Inr (publish_statements (result_emotions r) t1 t2 s)"
    by (rule publish_detected)
qed

lemma torn_schedule:
  "interleave [(''sad'', 80)] 2000 2000 [Writer, Writer, Reader, Writer, Writer] 0 happy_app =
     [torn_record]"
  by (simp add: happy_app_def torn_record_def get_latest_emotions_def convert_numpy_types_def
        eval_nat_numeral)

lemma happy_snapshot:
  "get_latest_emotions happy_app =
     \<lparr>emotions = [(''happy'', 90)], scores_out_of_10 = [(''happy'', 9)], timestamp = Some 1000\<rparr>"
  by (simp add: happy_app_def get_latest_emotions_def convert_numpy_types_def)

text \<open>
  Claim C1 as stated fails: a reader scheduled between the assignment to
  \<open>emotion_data['emotions']\<close> and the one to \<open>emotion_data['scores_out_of_10']\<close> gets
  the emotions of the running publish with the scores and the timestamp of the one
  before, a record equal neither to the state before the publish nor to the state
  after it.
\<close>

theorem reader_sees_torn_record:
  "interleave [(''sad'', 80)] 2000 2000 [Writer, Writer, Reader, Writer, Writer] 0 happy_app =
     [\<lparr>emotions = [(''sad'', 80)], scores_out_of_10 = [(''happy'', 9)], timestamp = Some 1000\<rparr>]
   \<and> get_latest_emotions happy_app =
     \<lparr>emotions = [(''happy'', 90)], scores_out_of_10 = [(''happy'', 9)], timestamp = Some 1000\<rparr>
   \<and> get_latest_emotions (publish_statements [(''sad'', 80)] 2000 2000 happy_app) =
     \<lparr>emotions = [(''sad'', 80)], scores_out_of_10 = convert_to_out_of_10 [(''sad'', 80)],
      timestamp = Some 2000\<rparr>
   \<and> publish happy_app (face_result [(''sad'', 80)]) 2000 2000 =
       Inr (publish_statements [(''sad'', 80)] 2000 2000 happy_app)"
  using torn_schedule happy_snapshot
  by (simp add: torn_record_def publish_statements_eq get_latest_emotions_def
        convert_numpy_types_def publish_detected face_result_def)

theorem snapshot_sees_prefix_of_publish_witness:
  "torn_record \<in> set (interleave [(''sad'', 80)] 2000 2000
       [Writer, Writer, Reader, Writer, Writer] 0 happy_app)
   \<and> (torn_record = get_latest_emotions happy_app
      \<or> torn_record = (get_latest_emotions happy_app)\<lparr>emotions := [(''sad'', 80)]\<rparr>
      \<or> torn_record = (get_latest_emotions happy_app)\<lparr>emotions := [(''sad'', 80)],
            scores_out_of_10 := convert_to_out_of_10 [(''sad'', 80)]\<rparr>
      \<or> torn_record =
            get_latest_emotions (publish_statements [(''sad'', 80)] 2000 2000 happy_app))
   \<and> torn_record = (get_latest_emotions happy_app)\<lparr>emotions := [(''sad'', 80)]\<rparr>
   \<and> face_detected (face_result [(''sad'', 80)])
   \<and> publish happy_app (face_result [(''sad'', 80)]) 2000 2000 =
       Inr (publish_statements (result_emotions (face_result [(''sad'', 80)])) 2000 2000 happy_app)"
proof -
  have m: "torn_record \<in> set (interleave [(''sad'', 80)] 2000 2000
       [Writer, Writer, Reader, Writer, Writer] 0 happy_app)"
    unfolding torn_schedule by simp
  have f: "face_detected (face_result [(''sad'', 80)])" by (rule face_result_facts(1))
  have t: "torn_record = (get_latest_emotions happy_app)\<lparr>emotions := [(''sad'', 80)]\<rparr>"
    by (simp add: happy_snapshot torn_record_def)
  note inst = snapshot_sees_prefix_of_publish[of "[(''sad'', 80)]" 2000 2000
      "[Writer, Writer, Reader, Writer, Writer]" happy_app "face_result [(''sad'', 80)]"]
  from inst m
  have d: "torn_record = get_latest_emotions happy_app
      \<or> torn_record = (get_latest_emotions happy_app)\<lparr>emotions := [(''sad'', 80)]\<rparr>
      \<or> torn_record = (get_latest_emotions happy_app)\<lparr>emotions := [(''sad'', 80)],
            scores_out_of_10 := convert_to_out_of_10 [(''sad'', 80)]\<rparr>
      \<or> torn_record =
            get_latest_emotions (publish_statements [(''sad'', 80)] 2000 2000 happy_app)"
    by blast
  from inst f
  have p: "publish happy_app (face_result [(''sad'', 80)]) 2000 2000 =
       Inr (publish_statements (result_emotions (face_result [(''sad'', 80)])) 2000 2000 happy_app)"
    by blast
  from m d t f p show ?thesis by (intro conjI)
qed

end
